theory Spec2Isabelle
  imports Main "HOL-Library.Word"
begin

section \<open>The session relay of backend/src/session.ts\<close>

text \<open>
  The class \<open>RTSession\<close> bridges one client WebSocket and one upstream \<open>RTClient\<close>.
  Its methods are embedded as functions on an explicit session state. The three
  collaborators the class holds are recorded by what the session does to them:
  the calls made on the socket \<open>ws\<close>, the calls made on the upstream \<open>client\<close>,
  and the entries written to the \<open>logger\<close>. The field \<open>sessionId\<close> is a random
  token that only labels log entries and is left out.
\<close>

subsection \<open>Wire messages (the interfaces at the top of session.ts)\<close>

datatype WSMessage =
    TextDelta string string        \<comment> \<open>\<open>{id, type: "text_delta", delta}\<close>\<close>
  | Transcription string string    \<comment> \<open>\<open>{id, type: "transcription", text}\<close>\<close>
  | UserMessage string string      \<comment> \<open>\<open>{id, type: "user_message", text}\<close>\<close>
  | SpeechStarted                  \<comment> \<open>\<open>{type: "control", action: "speech_started"}\<close>\<close>
  | Connected string               \<comment> \<open>\<open>{type: "control", action: "connected", greeting}\<close>\<close>
  | TextDone string                \<comment> \<open>\<open>{type: "control", action: "text_done", id}\<close>\<close>

type_synonym byte = "8 word"

text \<open>
  What happens to the client socket from the server's side. \<open>SendText m\<close> is
  \<open>ws.send(JSON.stringify(m))\<close>, \<open>SendBinary bs\<close> is
  \<open>ws.send(Buffer.from(..), {binary: true})\<close> with the bytes of the buffer, and
  \<open>CloseSocket\<close> is the end of the connection: \<open>ws.close()\<close> or
  \<open>ws.terminate()\<close>, which the class never calls, or the end of the server process,
  which the client sees as a close without handshake.
\<close>

datatype ws_call = SendText WSMessage | SendBinary "byte list" | CloseSocket

subsection \<open>Errors, outcomes of awaited calls, log entries\<close>

datatype error =
    SyntaxError          \<comment> \<open>raised by \<open>JSON.parse\<close>\<close>
  | TypeError            \<comment> \<open>reading a property of \<open>null\<close>\<close>
  | RTError string       \<comment> \<open>any error raised by the upstream library\<close>

text \<open>
  An awaited promise is fulfilled, is rejected, or stays pending for the rest of the
  run (for instance \<open>waitForCompletion\<close> while the speaker has not finished).
\<close>

datatype outcome = Returned | Threw error | Pending

datatype log_entry = LogDebug string | LogInfo string | LogError error string

subsection \<open>JSON values and the upstream client\<close>

datatype js_value =
    JNull
  | JBool bool
  | JNumber int
  | JString string
  | JArray "js_value list"
  | JObject "(string \<times> js_value) list"

text \<open>
  The values \<open>JSON.parse\<close> can return. Numbers play no part in the session; integers
  stand for them. \<open>property v k\<close> reads the property \<open>k\<close> of a value that is not \<open>null\<close>; \<open>None\<close> is
  \<open>undefined\<close>. It is used for the keys \<open>type\<close> and \<open>text\<close> only, which strings,
  numbers, booleans and arrays do not have.
\<close>

fun property :: "js_value \<Rightarrow> string \<Rightarrow> js_value option" where
  "property (JObject kvs) k = map_of kvs k"
| "property _ k = None"

text \<open>
  The calls of the upstream contract. \<open>Configure\<close> stands for \<open>configure\<close> with
  the fixed options of \<open>initialize\<close>; \<open>SendItem t\<close> is \<open>sendItem\<close> of the user
  message item whose single \<open>input_text\<close> content has text \<open>t\<close>.
\<close>

datatype up_call =
    Configure
  | SendAudio "byte list"
  | SendItem "js_value option"
  | GenerateResponse
  | Close

text \<open>
  The upstream library is not part of the repository. Its behaviour is a parameter:
  given the calls made so far and the next call, whether that call is rejected.
\<close>

type_synonym RTClient = "up_call list \<Rightarrow> up_call \<Rightarrow> error option"

subsection \<open>Session state\<close>

record RTSession =
  ws :: "ws_call list"
  client :: "up_call list"
  logger :: "log_entry list"

definition debug :: "string \<Rightarrow> RTSession \<Rightarrow> RTSession" where
  "debug msg s = s\<lparr>logger := logger s @ [LogDebug msg]\<rparr>"

definition info :: "string \<Rightarrow> RTSession \<Rightarrow> RTSession" where
  "info msg s = s\<lparr>logger := logger s @ [LogInfo msg]\<rparr>"

definition log_error :: "error \<Rightarrow> string \<Rightarrow> RTSession \<Rightarrow> RTSession" where
  "log_error e msg s = s\<lparr>logger := logger s @ [LogError e msg]\<rparr>"

definition send :: "WSMessage \<Rightarrow> RTSession \<Rightarrow> RTSession" where
  "send message s = s\<lparr>ws := ws s @ [SendText message]\<rparr>"

definition sendBinary :: "byte list \<Rightarrow> RTSession \<Rightarrow> RTSession" where
  "sendBinary message s = s\<lparr>ws := ws s @ [SendBinary message]\<rparr>"

definition call :: "RTClient \<Rightarrow> up_call \<Rightarrow> RTSession \<Rightarrow> error option \<times> RTSession" where
  "call rt c s = (rt (client s) c, s\<lparr>client := client s @ [c]\<rparr>)"

subsection \<open>Asynchronous sequences and \<open>for await\<close>\<close>

text \<open>
  An async iterable is observed as the elements that reach the session in a run and
  how it stops: it completes, it raises, or it yields nothing more in this run. What
  the upstream would deliver after the run has ended is not part of it.
\<close>

datatype seq_end = Ends | Fails error | Stalls

type_synonym 'a AsyncIterable = "'a list \<times> seq_end"

fun settle :: "seq_end \<Rightarrow> outcome" where
  "settle Ends = Returned"
| "settle (Fails e) = Threw e"
| "settle Stalls = Pending"

text \<open>
  \<open>for await (const x of xs) body\<close>: the body runs on each element in order; an
  exception or a suspension in the body leaves the loop there.
\<close>

fun for_await :: "'a AsyncIterable \<Rightarrow> ('a \<Rightarrow> 's \<Rightarrow> outcome \<times> 's) \<Rightarrow> 's \<Rightarrow> outcome \<times> 's" where
  "for_await ([], e) body s = (settle e, s)"
| "for_await (x # xs, e) body s =
     (case body x s of
        (Returned, s') \<Rightarrow> for_await (xs, e) body s'
      | (Threw err, s') \<Rightarrow> (Threw err, s')
      | (Pending, s') \<Rightarrow> (Pending, s'))"

subsection \<open>Content references\<close>

definition digit :: "nat \<Rightarrow> char" where
  "digit d = ''0123456789'' ! d"

fun string_of_nat :: "nat \<Rightarrow> string" where
  "string_of_nat n =
     (if n < 10 then [digit n] else string_of_nat (n div 10) @ [digit (n mod 10)])"

declare string_of_nat.simps [simp del]

text \<open>
  The template literal \<open>`${content.itemId}-${content.contentIndex}`\<close>; the content
  index is a position in an item's content array, rendered in decimal.
\<close>

definition contentId :: "string \<Rightarrow> nat \<Rightarrow> string" where
  "contentId itemId contentIndex = itemId @ ''-'' @ string_of_nat contentIndex"

subsection \<open>Upstream events\<close>

text \<open>
  The event hierarchy of the upstream library, as the session reads it: a content
  entry carries the id of its item and its index in the item, and its chunk
  sequences.
\<close>

record RTContent =
  itemId :: string
  contentIndex :: nat

record RTTextContent = RTContent +
  textChunks :: "string AsyncIterable"

text \<open>
  An audio chunk is a typed array: a window of \<open>byteLength\<close> bytes at \<open>byteOffset\<close>
  into its underlying \<open>buffer\<close>. \<open>bytes\<close> are the bytes of the chunk itself.
\<close>

record Uint8Array =
  buffer :: "byte list"
  byteOffset :: nat
  byteLength :: nat

definition bytes :: "Uint8Array \<Rightarrow> byte list" where
  "bytes chunk = take (byteLength chunk) (drop (byteOffset chunk) (buffer chunk))"

text \<open>
  The two chunk sequences of an audio content are produced independently. The order
  in which their elements reach the session is the upstream's: \<open>arrival\<close> lists, step
  by step, whether the next element handled is an audio chunk (\<open>True\<close>) or belongs to
  the transcript (\<open>False\<close>); \<open>audioSettlesFirst\<close> says which of the two loops
  finishes first.
\<close>

record RTAudioContent = RTContent +
  audioChunks :: "Uint8Array AsyncIterable"
  transcriptChunks :: "string AsyncIterable"
  arrival :: "bool list"
  audioSettlesFirst :: bool

datatype content = Text RTTextContent | Audio RTAudioContent | OtherContent

datatype item = MessageItem "content AsyncIterable" | OtherItem

record RTInputAudioItem =
  input_id :: string
  waitForCompletion :: outcome
  transcription :: "string option"

datatype event = Response "item AsyncIterable" | InputAudio RTInputAudioItem | OtherEvent

subsection \<open>Content stream handlers\<close>

definition handleTextContent :: "RTTextContent \<Rightarrow> RTSession \<Rightarrow> outcome \<times> RTSession" where
  "handleTextContent content s =
     (let cid = contentId (itemId content) (contentIndex content) in
      case for_await (textChunks content)
             (\<lambda>text s'. (Returned, send (TextDelta cid text) s')) s of
        (Returned, s1) \<Rightarrow>
          (Returned, debug ''Text content processed successfully'' (send (TextDone cid) s1))
      | (Threw e, s1) \<Rightarrow> (Threw e, log_error e ''Error handling text content'' s1)
      | (Pending, s1) \<Rightarrow> (Pending, s1))"

text \<open>The two closures of \<open>handleAudioContent\<close>, each run on its own.\<close>

definition handleAudioChunks :: "RTAudioContent \<Rightarrow> RTSession \<Rightarrow> outcome \<times> RTSession" where
  "handleAudioChunks content s =
     for_await (audioChunks content)
       (\<lambda>chunk s'. (Returned, sendBinary (buffer chunk) s')) s"

definition handleAudioTranscript :: "RTAudioContent \<Rightarrow> RTSession \<Rightarrow> outcome \<times> RTSession" where
  "handleAudioTranscript content s =
     (let cid = contentId (itemId content) (contentIndex content) in
      case for_await (transcriptChunks content)
             (\<lambda>chunk s'. (Returned, send (TextDelta cid chunk) s')) s of
        (Returned, s1) \<Rightarrow> (Returned, send (TextDone cid) s1)
      | (Threw e, s1) \<Rightarrow> (Threw e, s1)
      | (Pending, s1) \<Rightarrow> (Pending, s1))"

text \<open>
  \<open>Promise.all\<close> of the two closures. Both run concurrently: what each sends is merged
  in arrival order. The promise is rejected by the rejection that comes first, pending
  while a closure is pending and none is rejected, fulfilled when both are.
\<close>

fun interleave :: "bool list \<Rightarrow> 'a list \<Rightarrow> 'a list \<Rightarrow> 'a list" where
  "interleave (True # bs) (x # xs) ys = x # interleave bs xs ys"
| "interleave (False # bs) xs (y # ys) = y # interleave bs xs ys"
| "interleave (True # bs) [] ys = ys"
| "interleave (False # bs) xs [] = xs"
| "interleave [] xs ys = xs @ ys"

definition sent_by :: "(RTSession \<Rightarrow> outcome \<times> RTSession) \<Rightarrow> RTSession \<Rightarrow> ws_call list" where
  "sent_by task s = drop (length (ws s)) (ws (snd (task s)))"

fun promise_all :: "bool \<Rightarrow> outcome \<Rightarrow> outcome \<Rightarrow> outcome" where
  "promise_all first (Threw e1) (Threw e2) = Threw (if first then e1 else e2)"
| "promise_all first (Threw e1) _ = Threw e1"
| "promise_all first _ (Threw e2) = Threw e2"
| "promise_all first Pending _ = Pending"
| "promise_all first _ Pending = Pending"
| "promise_all first Returned Returned = Returned"

text \<open>
  The state returned holds all that the two closures send in the run:
  \<open>Promise.all\<close> does not cancel the closure that is still running when the other
  one raises.
\<close>

definition handleAudioContent :: "RTAudioContent \<Rightarrow> RTSession \<Rightarrow> outcome \<times> RTSession" where
  "handleAudioContent content s =
     (let s1 = s\<lparr>ws := ws s @ interleave (arrival content)
                                  (sent_by (handleAudioChunks content) s)
                                  (sent_by (handleAudioTranscript content) s)\<rparr> in
      case promise_all (audioSettlesFirst content)
             (fst (handleAudioChunks content s)) (fst (handleAudioTranscript content s)) of
        Returned \<Rightarrow> (Returned, debug ''Audio content processed successfully'' s1)
      | Threw e \<Rightarrow> (Threw e, log_error e ''Error handling audio content'' s1)
      | Pending \<Rightarrow> (Pending, s1))"

subsection \<open>Dispatchers and the event loop\<close>

definition handleContent :: "content \<Rightarrow> RTSession \<Rightarrow> outcome \<times> RTSession" where
  "handleContent c s =
     (case c of
        Text t \<Rightarrow> handleTextContent t s
      | Audio a \<Rightarrow> handleAudioContent a s
      | OtherContent \<Rightarrow> (Returned, s))"

definition handleItem :: "item \<Rightarrow> RTSession \<Rightarrow> outcome \<times> RTSession" where
  "handleItem i s =
     (case i of
        MessageItem contents \<Rightarrow> for_await contents handleContent s
      | OtherItem \<Rightarrow> (Returned, s))"

definition handleResponse :: "item AsyncIterable \<Rightarrow> RTSession \<Rightarrow> outcome \<times> RTSession" where
  "handleResponse event s =
     (case for_await event handleItem s of
        (Returned, s1) \<Rightarrow> (Returned, debug ''Response handled successfully'' s1)
      | (Threw e, s1) \<Rightarrow> (Threw e, log_error e ''Error handling response'' s1)
      | (Pending, s1) \<Rightarrow> (Pending, s1))"

text \<open>\<open>event.transcription || ""\<close>: undefined and the empty string both give \<open>""\<close>.\<close>

definition or_empty :: "string option \<Rightarrow> string" where
  "or_empty t = (case t of None \<Rightarrow> [] | Some v \<Rightarrow> if v = [] then [] else v)"

definition handleInputAudio :: "RTInputAudioItem \<Rightarrow> RTSession \<Rightarrow> outcome \<times> RTSession" where
  "handleInputAudio event s =
     (let s1 = send SpeechStarted s in
      case waitForCompletion event of
        Returned \<Rightarrow>
          (Returned,
           debug ''Input audio processed successfully''
             (send (Transcription (input_id event) (or_empty (transcription event))) s1))
      | Threw e \<Rightarrow> (Threw e, log_error e ''Error handling input audio'' s1)
      | Pending \<Rightarrow> (Pending, s1))"

definition handleEvent :: "event \<Rightarrow> RTSession \<Rightarrow> outcome \<times> RTSession" where
  "handleEvent ev s =
     (case ev of
        Response r \<Rightarrow> handleResponse r s
      | InputAudio a \<Rightarrow> handleInputAudio a s
      | OtherEvent \<Rightarrow> (Returned, s))"

definition startEventLoop :: "event AsyncIterable \<Rightarrow> RTSession \<Rightarrow> outcome \<times> RTSession" where
  "startEventLoop events s =
     (case for_await events handleEvent (debug ''Starting event loop'' s) of
        (Returned, s1) \<Rightarrow> (Returned, s1)
      | (Threw e, s1) \<Rightarrow> (Threw e, log_error e ''Error in event loop'' s1)
      | (Pending, s1) \<Rightarrow> (Pending, s1))"

subsection \<open>Teardown\<close>

definition handleClose :: "RTClient \<Rightarrow> RTSession \<Rightarrow> outcome \<times> RTSession" where
  "handleClose rt s =
     (case call rt Close (info ''Session closing'' s) of
        (None, s1) \<Rightarrow> (Returned, info ''Session closed successfully'' s1)
      | (Some e, s1) \<Rightarrow> (Returned, log_error e ''Error closing session'' s1))"

subsection \<open>Inbound client messages\<close>

type_synonym Buffer = "byte list"

text \<open>
  A JavaScript string is kept as its UTF-8 text, so \<open>message.toString("utf-8")\<close>
  only changes the type. \<open>JSON.parse\<close> is the language's own function and a
  parameter here: \<open>None\<close> is its \<open>SyntaxError\<close>.
\<close>

definition toString_utf8 :: "Buffer \<Rightarrow> string" where
  "toString_utf8 message = map (\<lambda>b. char_of (unat b)) message"

definition handleBinaryMessage :: "RTClient \<Rightarrow> Buffer \<Rightarrow> RTSession \<Rightarrow> outcome \<times> RTSession" where
  "handleBinaryMessage rt message s =
     (case call rt (SendAudio message) s of
        (None, s1) \<Rightarrow> (Returned, s1)
      | (Some e, s1) \<Rightarrow> (Threw e, log_error e ''Failed to send audio data'' s1))"

definition handleTextMessage ::
    "(string \<Rightarrow> js_value option) \<Rightarrow> RTClient \<Rightarrow> Buffer \<Rightarrow> RTSession \<Rightarrow> outcome \<times> RTSession" where
  "handleTextMessage JSON_parse rt message s =
     (let messageString = toString_utf8 message in
      case JSON_parse messageString of
        None \<Rightarrow> (Threw SyntaxError, s)
      | Some parsed \<Rightarrow>
          if parsed = JNull then (Threw TypeError, s)
          else
            (let s1 = debug ''Received text message'' s in
             if property parsed ''type'' = Some (JString ''user_message'') then
               (case call rt (SendItem (property parsed ''text'')) s1 of
                  (Some e, s2) \<Rightarrow> (Threw e, log_error e ''Failed to process user message'' s2)
                | (None, s2) \<Rightarrow>
                    (case call rt GenerateResponse s2 of
                       (Some e, s3) \<Rightarrow>
                         (Threw e, log_error e ''Failed to process user message'' s3)
                     | (None, s3) \<Rightarrow>
                         (Returned, debug ''User message processed successfully'' s3)))
             else (Returned, s1)))"

definition handleMessage ::
    "(string \<Rightarrow> js_value option) \<Rightarrow> RTClient \<Rightarrow> Buffer \<Rightarrow> bool \<Rightarrow> RTSession \<Rightarrow> outcome \<times> RTSession" where
  "handleMessage JSON_parse rt message isBinary s =
     (case (if isBinary then handleBinaryMessage rt message s
            else handleTextMessage JSON_parse rt message s) of
        (Threw e, s1) \<Rightarrow> (Returned, log_error e ''Error handling message'' s1)
      | (Returned, s1) \<Rightarrow> (Returned, s1)
      | (Pending, s1) \<Rightarrow> (Pending, s1))"

subsection \<open>The server process: promises that nobody awaits\<close>

text \<open>
  \<open>app.ts\<close> creates one \<open>RTSession\<close> per connection and installs no handler for
  rejected promises or uncaught exceptions. The constructor does not await
  \<open>initialize()\<close>, \<open>initialize\<close> does not await \<open>startEventLoop()\<close>, and the socket
  does not await the handlers registered on it. When one of these promises is
  rejected, nothing handles the rejection: the runtime ends the process, every socket
  of the process goes down with it, and the client finds its connection closed
  abruptly. From then on no handler of the session runs.

  A process is running, with the event loop of its session not started, waiting for
  the upstream, or completed; or it has been ended by an error.
\<close>

datatype event_loop = NotStarted | Waiting | Completed

datatype process = Running event_loop RTSession | Exited error RTSession

definition unhandledRejection :: "error \<Rightarrow> RTSession \<Rightarrow> process" where
  "unhandledRejection e s = Exited e (s\<lparr>ws := ws s @ [CloseSocket]\<rparr>)"

text \<open>The promise of \<open>startEventLoop()\<close>, left alone by \<open>initialize\<close>.\<close>

definition unawaited_loop :: "outcome \<times> RTSession \<Rightarrow> process" where
  "unawaited_loop r =
     (case r of
        (Returned, s) \<Rightarrow> Running Completed s
      | (Pending, s) \<Rightarrow> Running Waiting s
      | (Threw e, s) \<Rightarrow> unhandledRejection e s)"

definition greeting :: string where
  "greeting = ''You are now connected to the a expressjs server''"

text \<open>
  \<open>initialize\<close>: its own promise is rejected when \<open>configure\<close> is; otherwise it is
  fulfilled as soon as the event loop has been started.
\<close>

definition initialize ::
    "RTClient \<Rightarrow> event AsyncIterable \<Rightarrow> RTSession \<Rightarrow> outcome \<times> process" where
  "initialize rt events s =
     (case call rt Configure (debug ''Configuring realtime session'' s) of
        (Some e, s1) \<Rightarrow> (Threw e, Running NotStarted s1)
      | (None, s1) \<Rightarrow>
          (let s2 = debug ''Realtime session configured successfully'' s1;
               s3 = send (Connected greeting) s2;
               s4 = debug ''Realtime session configured successfully'' s3
           in (Returned, unawaited_loop (startEventLoop events s4))))"

text \<open>
  The constructor: client created, handlers registered, then \<open>initialize()\<close>, whose
  promise it drops.
\<close>

definition created :: RTSession where
  "created = \<lparr>ws = [], client = [],
              logger = [LogDebug ''Initializing RT client'',
                        LogDebug ''Client configured successfully'',
                        LogInfo ''New session created'']\<rparr>"

definition new_RTSession :: "RTClient \<Rightarrow> event AsyncIterable \<Rightarrow> process" where
  "new_RTSession rt events =
     (case initialize rt events created of
        (Threw e, Running loop s) \<Rightarrow> unhandledRejection e s
      | (Threw e, Exited e' s) \<Rightarrow> Exited e' s
      | (Returned, p) \<Rightarrow> p
      | (Pending, p) \<Rightarrow> p)"

text \<open>
  The socket's \<open>message\<close> and \<open>close\<close> events call \<open>handleMessage\<close> and
  \<open>handleClose\<close>, as registered by \<open>setupEventHandlers\<close>; in a process that has
  ended nothing is called.
\<close>

fun deliver :: "(RTSession \<Rightarrow> outcome \<times> RTSession) \<Rightarrow> process \<Rightarrow> process" where
  "deliver handler (Exited e s) = Exited e s"
| "deliver handler (Running loop s) =
     (case handler s of
        (Returned, s') \<Rightarrow> Running loop s'
      | (Pending, s') \<Rightarrow> Running loop s'
      | (Threw e, s') \<Rightarrow> unhandledRejection e s')"

definition on_message ::
    "(string \<Rightarrow> js_value option) \<Rightarrow> RTClient \<Rightarrow> Buffer \<Rightarrow> bool \<Rightarrow> process \<Rightarrow> process" where
  "on_message JSON_parse rt message isBinary = deliver (handleMessage JSON_parse rt message isBinary)"

definition on_close :: "RTClient \<Rightarrow> process \<Rightarrow> process" where
  "on_close rt = deliver (handleClose rt)"

section \<open>Observations and sample inputs\<close>

text \<open>What a list of socket calls delivers to the client, by kind of frame.\<close>

fun text_calls :: "ws_call list \<Rightarrow> WSMessage list" where
  "text_calls [] = []"
| "text_calls (SendText m # cs) = m # text_calls cs"
| "text_calls (SendBinary b # cs) = text_calls cs"
| "text_calls (CloseSocket # cs) = text_calls cs"

fun binary_calls :: "ws_call list \<Rightarrow> byte list list" where
  "binary_calls [] = []"
| "binary_calls (SendBinary b # cs) = b # binary_calls cs"
| "binary_calls (SendText m # cs) = binary_calls cs"
| "binary_calls (CloseSocket # cs) = binary_calls cs"

text \<open>The \<open>id\<close> field of a wire message, where the variant has one.\<close>

definition message_id :: "WSMessage \<Rightarrow> string option" where
  "message_id m =
     (case m of
        TextDelta i d \<Rightarrow> Some i
      | Transcription i t \<Rightarrow> Some i
      | UserMessage i t \<Rightarrow> Some i
      | TextDone i \<Rightarrow> Some i
      | _ \<Rightarrow> None)"

text \<open>\<open>Buffer.from(str, "utf-8")\<close>, the inverse of \<open>toString_utf8\<close>.\<close>

definition Buffer_from :: "string \<Rightarrow> Buffer" where
  "Buffer_from str = map (\<lambda>c. of_nat (of_char c)) str"

text \<open>
  A parser that agrees with \<open>JSON.parse\<close> on the three frames used below: the empty
  object, the user message of the specification's scenario, and a text that is not
  JSON.
\<close>

definition sample_JSON_parse :: "string \<Rightarrow> js_value option" where
  "sample_JSON_parse str =
     (if str = ''{}'' then Some (JObject [])
      else if str = ''{\"type\":\"user_message\",\"id\":\"m1\",\"text\":\"hello\"}''
        then Some (JObject [(''type'', JString ''user_message''), (''id'', JString ''m1''),
                            (''text'', JString ''hello'')])
      else None)"

definition hello_frame :: Buffer where
  "hello_frame = Buffer_from ''{\"type\":\"user_message\",\"id\":\"m1\",\"text\":\"hello\"}''"

definition garbage_frame :: Buffer where
  "garbage_frame = Buffer_from ''{not json''"

definition empty_object_frame :: Buffer where
  "empty_object_frame = Buffer_from ''{}''"

text \<open>Three upstreams: one that accepts every call, one that rejects audio, one that
  rejects its configuration.\<close>

definition upstream_ok :: RTClient where
  "upstream_ok history c = None"

definition upstream_audio_down :: RTClient where
  "upstream_audio_down history c =
     (case c of SendAudio b \<Rightarrow> Some (RTError ''send failed'') | _ \<Rightarrow> None)"


text \<open>One response with one text content whose chunk sequence raises after \<open>"hi"\<close>.\<close>

definition lost_text_stream :: "event AsyncIterable" where
  "lost_text_stream =
     ([Response ([MessageItem ([Text \<lparr>itemId = ''A1'', contentIndex = 0,
                                       textChunks = ([''hi''], Fails (RTError ''stream lost''))\<rparr>],
                               Ends)], Ends)], Stalls)"

text \<open>
  The upstream library yields each audio chunk as an array of its own: the chunk spans
  its whole buffer.
\<close>

definition spans_buffer :: "Uint8Array \<Rightarrow> bool" where
  "spans_buffer chunk = (byteOffset chunk = 0 \<and> byteLength chunk = length (buffer chunk))"

text \<open>
  The content streams a client has seen opened and not closed: a \<open>text_delta\<close> opens
  the stream of its id, a \<open>text_done\<close> closes it.
\<close>

fun open_after :: "string set \<Rightarrow> WSMessage list \<Rightarrow> string set" where
  "open_after opened [] = opened"
| "open_after opened (TextDelta i d # ms) = open_after (insert i opened) ms"
| "open_after opened (TextDone i # ms) = open_after (opened - {i}) ms"
| "open_after opened (m # ms) = open_after opened ms"

definition left_open :: "ws_call list \<Rightarrow> string set" where
  "left_open cs = open_after {} (text_calls cs)"

text \<open>A response with one text content that completes, on an upstream that then ends.\<close>

definition short_text_stream :: "event AsyncIterable" where
  "short_text_stream =
     ([Response ([MessageItem ([Text \<lparr>itemId = ''A1'', contentIndex = 0,
                                       textChunks = ([''hi''], Ends)\<rparr>],
                               Ends)], Ends)], Ends)"

text \<open>The session of a process, running or ended.\<close>

definition session_of :: "process \<Rightarrow> RTSession" where
  "session_of p = (case p of Running loop s \<Rightarrow> s | Exited e s \<Rightarrow> s)"

text \<open>
  Invariants of the event loop: no stream is open; at most one stream is open.
\<close>

definition all_closed :: "RTSession \<Rightarrow> bool" where
  "all_closed s = (left_open (ws s) = {})"

definition one_open :: "RTSession \<Rightarrow> bool" where
  "one_open s = (\<exists>i. left_open (ws s) \<subseteq> {i})"

text \<open>Two text contents of one item: the first completes, the second raises.\<close>

definition first_text :: RTTextContent where
  "first_text = \<lparr>itemId = ''A1'', contentIndex = 0, textChunks = ([''hi''], Ends)\<rparr>"

definition second_text :: RTTextContent where
  "second_text = \<lparr>itemId = ''A1'', contentIndex = 1,
                   textChunks = ([''yo''], Fails (RTError ''stream lost''))\<rparr>"

section \<open>Properties of the handlers\<close>

subsection \<open>Frames by kind\<close>

lemma text_calls_append: "text_calls (xs @ ys) = text_calls xs @ text_calls ys"
  by (induction xs rule: text_calls.induct) simp_all

lemma binary_calls_append: "binary_calls (xs @ ys) = binary_calls xs @ binary_calls ys"
  by (induction xs rule: binary_calls.induct) simp_all

lemma text_calls_texts: "text_calls (map (\<lambda>x. SendText (f x)) xs) = map f xs"
  by (induction xs) simp_all

lemma text_calls_binaries: "text_calls (map (\<lambda>x. SendBinary (f x)) xs) = []"
  by (induction xs) simp_all

lemma binary_calls_binaries: "binary_calls (map (\<lambda>x. SendBinary (f x)) xs) = map f xs"
  by (induction xs) simp_all

lemma binary_calls_texts: "binary_calls (map (\<lambda>x. SendText (f x)) xs) = []"
  by (induction xs) simp_all

text \<open>
  Whatever the arrival order, merging keeps each side's frames, in their order.
\<close>

lemma text_calls_interleave:
  "text_calls (interleave bs xs ys) = text_calls xs @ text_calls ys" if "text_calls xs = []"
  using that
proof (induction bs xs ys rule: interleave.induct)
  case (1 bs x xs ys)
  then show ?case by (cases x) simp_all
next
  case (2 bs xs y ys)
  then show ?case by (cases y) simp_all
qed (simp_all add: text_calls_append)

lemma binary_calls_interleave:
  "binary_calls (interleave bs xs ys) = binary_calls xs" if "binary_calls ys = []"
  using that
proof (induction bs xs ys rule: interleave.induct)
  case (1 bs x xs ys)
  then show ?case by (cases x) simp_all
next
  case (2 bs xs y ys)
  then show ?case by (cases y) simp_all
qed (simp_all add: binary_calls_append)

subsection \<open>Loops that only send\<close>

lemma for_await_emit:
  "for_await (xs, e) (\<lambda>x s'. (Returned, s'\<lparr>ws := ws s' @ [f x]\<rparr>)) s
     = (settle e, s\<lparr>ws := ws s @ map f xs\<rparr>)"
  by (induction xs arbitrary: s) simp_all

lemma sent_by_append:
  assumes "ws (snd (task s)) = ws s @ cs"
  shows "sent_by task s = cs"
  using assms by (simp add: sent_by_def)

lemma handleTextContent_run:
  assumes "textChunks content = (cs, e)"
  shows "fst (handleTextContent content s) = settle e"
    and "ws (snd (handleTextContent content s)) =
           ws s @ map (\<lambda>c. SendText (TextDelta (contentId (itemId content) (contentIndex content)) c)) cs
                @ (if e = Ends then [SendText (TextDone (contentId (itemId content) (contentIndex content)))] else [])"
    and "client (snd (handleTextContent content s)) = client s"
  using assms
  by (cases e; simp add: handleTextContent_def send_def for_await_emit debug_def log_error_def Let_def)+

lemma handleAudioChunks_run:
  assumes "audioChunks content = (as, e)"
  shows "handleAudioChunks content s =
           (settle e, s\<lparr>ws := ws s @ map (\<lambda>c. SendBinary (buffer c)) as\<rparr>)"
  using assms by (simp add: handleAudioChunks_def sendBinary_def for_await_emit)

lemma handleAudioTranscript_run:
  assumes "transcriptChunks content = (ts, e)"
  shows "handleAudioTranscript content s =
      (settle e, s\<lparr>ws := ws s @ map (\<lambda>c. SendText (TextDelta (contentId (itemId content) (contentIndex content)) c)) ts
                @ (if e = Ends then [SendText (TextDone (contentId (itemId content) (contentIndex content)))] else [])\<rparr>)"
proof (cases e)
  case Ends
  with assms show ?thesis
    by (simp add: handleAudioTranscript_def send_def for_await_emit Let_def)
next
  case (Fails err)
  with assms show ?thesis
    by (simp add: handleAudioTranscript_def send_def for_await_emit Let_def)
next
  case Stalls
  with assms show ?thesis
    by (simp add: handleAudioTranscript_def send_def for_await_emit Let_def)
qed

lemma handleAudioContent_run:
  assumes "audioChunks content = (as, ea)" and "transcriptChunks content = (ts, et)"
  shows "fst (handleAudioContent content s) =
           promise_all (audioSettlesFirst content) (settle ea) (settle et)"
    and "ws (snd (handleAudioContent content s)) =
           ws s @ interleave (arrival content)
                    (map (\<lambda>c. SendBinary (buffer c)) as)
                    (map (\<lambda>c. SendText (TextDelta (contentId (itemId content) (contentIndex content)) c)) ts
                     @ (if et = Ends then [SendText (TextDone (contentId (itemId content) (contentIndex content)))] else []))"
proof -
  let ?a = "map (\<lambda>c. SendBinary (buffer c)) as"
  let ?t = "map (\<lambda>c. SendText (TextDelta (contentId (itemId content) (contentIndex content)) c)) ts
              @ (if et = Ends then [SendText (TextDone (contentId (itemId content) (contentIndex content)))] else [])"
  have a: "sent_by (handleAudioChunks content) s = ?a"
    by (rule sent_by_append) (simp add: handleAudioChunks_run [OF assms(1)])
  have t: "sent_by (handleAudioTranscript content) s = ?t"
    by (rule sent_by_append) (simp add: handleAudioTranscript_run [OF assms(2)])
  have fa: "fst (handleAudioChunks content s) = settle ea"
    by (simp add: handleAudioChunks_run [OF assms(1)])
  have ft: "fst (handleAudioTranscript content s) = settle et"
    by (simp add: handleAudioTranscript_run [OF assms(2)])
  show "fst (handleAudioContent content s) =
           promise_all (audioSettlesFirst content) (settle ea) (settle et)"
    unfolding handleAudioContent_def Let_def a t fa ft
    by (cases "promise_all (audioSettlesFirst content) (settle ea) (settle et)") simp_all
  show "ws (snd (handleAudioContent content s)) = ws s @ interleave (arrival content) ?a ?t"
    unfolding handleAudioContent_def Let_def a t fa ft
    by (cases "promise_all (audioSettlesFirst content) (settle ea) (settle et)")
       (simp_all add: debug_def log_error_def)
qed

text \<open>
  An audio content whose two sequences complete: the binary frames are the chunks'
  buffers in order, the text frames are the transcript deltas in order and then one
  \<open>text_done\<close>, for every arrival order.
\<close>

lemma audio_content_forwarding:
  assumes "audioChunks content = (as, Ends)" and "transcriptChunks content = (ts, Ends)"
  shows "fst (handleAudioContent content s) = Returned"
    and "binary_calls (sent_by (handleAudioContent content) s) = map buffer as"
    and "text_calls (sent_by (handleAudioContent content) s) =
           map (TextDelta (contentId (itemId content) (contentIndex content))) ts
           @ [TextDone (contentId (itemId content) (contentIndex content))]"
  using handleAudioContent_run [OF assms, of s]
  by (simp_all add: sent_by_def text_calls_interleave binary_calls_interleave
        text_calls_binaries binary_calls_binaries text_calls_append binary_calls_append
        text_calls_texts binary_calls_texts)

lemma whole_buffer_bytes:
  "byteOffset chunk = 0 \<Longrightarrow> byteLength chunk = length (buffer chunk) \<Longrightarrow> bytes chunk = buffer chunk"
  by (simp add: bytes_def)

subsection \<open>Inbound handlers\<close>

lemma toString_Buffer_from: "toString_utf8 (Buffer_from str) = str"
proof -
  have "char_of (unat (of_nat (of_char c) :: byte)) = c" for c :: char
    by (simp add: unat_of_nat)
  then show ?thesis
    by (simp add: toString_utf8_def Buffer_from_def comp_def)
qed

lemma sample_parse_hello:
  "sample_JSON_parse (toString_utf8 hello_frame) =
     Some (JObject [(''type'', JString ''user_message''), (''id'', JString ''m1''),
                    (''text'', JString ''hello'')])"
  by (simp add: hello_frame_def toString_Buffer_from sample_JSON_parse_def)

lemma sample_parse_garbage: "sample_JSON_parse (toString_utf8 garbage_frame) = None"
  by (simp add: garbage_frame_def toString_Buffer_from sample_JSON_parse_def)

lemma sample_parse_empty_object:
  "sample_JSON_parse (toString_utf8 empty_object_frame) = Some (JObject [])"
  by (simp add: empty_object_frame_def toString_Buffer_from sample_JSON_parse_def)

lemma created_fields:
  "ws created = []" "client created = []"
  by (simp_all add: created_def)

lemma property_not_null: "property parsed k = Some v \<Longrightarrow> parsed \<noteq> JNull"
  by (cases parsed) simp_all

lemma handleMessage_returns: "fst (handleMessage JSON_parse rt message isBinary s) = Returned"
  by (simp add: handleMessage_def handleBinaryMessage_def handleTextMessage_def call_def
        Let_def split: option.splits)

lemma handleMessage_ws: "ws (snd (handleMessage JSON_parse rt message isBinary s)) = ws s"
  by (simp add: handleMessage_def handleBinaryMessage_def handleTextMessage_def call_def
        log_error_def debug_def Let_def split: option.splits)

lemma handleMessage_no_close:
  "(Close \<in> set (client (snd (handleMessage JSON_parse rt message isBinary s))))
     = (Close \<in> set (client s))"
  by (simp add: handleMessage_def handleBinaryMessage_def handleTextMessage_def call_def
        log_error_def debug_def Let_def split: option.splits)

lemma handleClose_ws: "ws (snd (handleClose rt s)) = ws s"
  by (simp add: handleClose_def call_def log_error_def info_def split: option.splits)

subsection \<open>Open and closed streams along the event loop\<close>

lemma open_after_append:
  "open_after opened (xs @ ys) = open_after (open_after opened xs) ys"
  by (induction opened xs rule: open_after.induct) simp_all

lemma open_after_deltas:
  "open_after opened (map (TextDelta i) cs) = (if cs = [] then opened else insert i opened)"
  by (induction cs arbitrary: opened) auto

lemma all_closed_one_open: "all_closed s \<Longrightarrow> one_open s"
  by (simp add: all_closed_def one_open_def)

lemma stream_block:
  assumes "text_calls (ws s') = text_calls (ws s) @ map (TextDelta i) cs @ rest"
    and "all_closed s"
  shows "rest = [TextDone i] \<Longrightarrow> all_closed s'"
    and "rest = [] \<Longrightarrow> one_open s'"
  using assms
  by (auto simp: all_closed_def one_open_def left_open_def open_after_append open_after_deltas)

lemma for_await_inv:
  assumes step: "\<And>x s r s'. body x s = (r, s') \<Longrightarrow> P s \<Longrightarrow>
                   (r = Returned \<longrightarrow> P s') \<and> (r = Pending \<longrightarrow> Q s')"
    and weak: "\<And>s. P s \<Longrightarrow> Q s"
    and run: "for_await (xs, e) body s = (r, s')"
    and start: "P s"
  shows "(r = Returned \<longrightarrow> P s') \<and> (r = Pending \<longrightarrow> Q s')"
  using run start
proof (induction xs arbitrary: s)
  case Nil
  then show ?case by (auto dest: weak)
next
  case (Cons x xs)
  obtain r0 s0 where b: "body x s = (r0, s0)"
    by (cases "body x s")
  from step [OF b Cons.prems(2)]
  have s0: "(r0 = Returned \<longrightarrow> P s0) \<and> (r0 = Pending \<longrightarrow> Q s0)" .
  show ?case
  proof (cases r0)
    case Returned
    with Cons.prems(1) b have "for_await (xs, e) body s0 = (r, s')" by simp
    moreover from s0 Returned have "P s0" by simp
    ultimately show ?thesis by (rule Cons.IH)
  next
    case (Threw err)
    with Cons.prems(1) b show ?thesis by auto
  next
    case Pending
    with Cons.prems(1) b s0 show ?thesis by auto
  qed
qed

lemma handleTextContent_streams:
  assumes "handleTextContent content s = (r, s')" and "all_closed s"
  shows "(r = Returned \<longrightarrow> all_closed s') \<and> (r = Pending \<longrightarrow> one_open s')"
proof -
  obtain cs e where c: "textChunks content = (cs, e)"
    by (cases "textChunks content")
  let ?i = "contentId (itemId content) (contentIndex content)"
  from handleTextContent_run(1,2) [OF c, of s] assms(1)
  have r: "r = settle e"
    and t: "text_calls (ws s') = text_calls (ws s) @ map (TextDelta ?i) cs
              @ (if e = Ends then [TextDone ?i] else [])"
    by (simp_all add: text_calls_append text_calls_texts)
  show ?thesis
  proof (cases e)
    case Ends
    with t stream_block(1) [OF _ assms(2), of s' ?i cs "[TextDone ?i]"] r show ?thesis by simp
  next
    case (Fails err)
    with r show ?thesis by simp
  next
    case Stalls
    with t stream_block(2) [OF _ assms(2), of s' ?i cs "[]"] r show ?thesis by simp
  qed
qed

lemma handleAudioContent_streams:
  assumes "handleAudioContent content s = (r, s')" and "all_closed s"
  shows "(r = Returned \<longrightarrow> all_closed s') \<and> (r = Pending \<longrightarrow> one_open s')"
proof -
  obtain as ea where a: "audioChunks content = (as, ea)"
    by (cases "audioChunks content")
  obtain ts et where c: "transcriptChunks content = (ts, et)"
    by (cases "transcriptChunks content")
  let ?i = "contentId (itemId content) (contentIndex content)"
  from handleAudioContent_run [OF a c, of s] assms(1)
  have r: "r = promise_all (audioSettlesFirst content) (settle ea) (settle et)"
    and t: "text_calls (ws s') = text_calls (ws s) @ map (TextDelta ?i) ts
              @ (if et = Ends then [TextDone ?i] else [])"
    by (simp_all add: text_calls_append text_calls_interleave text_calls_binaries text_calls_texts)
  show ?thesis
  proof (cases et)
    case Ends
    with t stream_block(1) [OF _ assms(2), of s' ?i ts "[TextDone ?i]"]
    have "all_closed s'" by simp
    then show ?thesis by (simp add: all_closed_one_open)
  next
    case (Fails err)
    with r show ?thesis by (cases "settle ea") simp_all
  next
    case Stalls
    with t stream_block(2) [OF _ assms(2), of s' ?i ts "[]"]
    have "one_open s'" by simp
    moreover from Stalls r have "r \<noteq> Returned" by (cases "settle ea") simp_all
    ultimately show ?thesis by simp
  qed
qed

lemma handleContent_streams:
  assumes "handleContent c s = (r, s')" and "all_closed s"
  shows "(r = Returned \<longrightarrow> all_closed s') \<and> (r = Pending \<longrightarrow> one_open s')"
proof (cases c)
  case (Text t)
  with assms show ?thesis by (simp add: handleContent_def handleTextContent_streams)
next
  case (Audio a)
  with assms show ?thesis by (simp add: handleContent_def handleAudioContent_streams)
next
  case OtherContent
  with assms show ?thesis by (auto simp: handleContent_def)
qed

lemma handleItem_streams:
  assumes "handleItem i s = (r, s')" and "all_closed s"
  shows "(r = Returned \<longrightarrow> all_closed s') \<and> (r = Pending \<longrightarrow> one_open s')"
proof (cases i)
  case (MessageItem contents)
  obtain cs e where c: "contents = (cs, e)" by (cases contents)
  from assms(1) MessageItem c have "for_await (cs, e) handleContent s = (r, s')"
    by (simp add: handleItem_def)
  then show ?thesis
    by (rule for_await_inv [where P = all_closed and Q = one_open, rotated 2])
       (auto intro: assms(2) all_closed_one_open dest: handleContent_streams)
next
  case OtherItem
  with assms show ?thesis by (auto simp: handleItem_def)
qed

lemma all_closed_logs [simp]:
  "all_closed (debug m s) = all_closed s"
  "all_closed (info m s) = all_closed s"
  "all_closed (log_error e m s) = all_closed s"
  "one_open (debug m s) = one_open s"
  "one_open (log_error e m s) = one_open s"
  by (simp_all add: all_closed_def one_open_def debug_def info_def log_error_def)

lemma handleResponse_streams:
  assumes "handleResponse event s = (r, s')" and "all_closed s"
  shows "(r = Returned \<longrightarrow> all_closed s') \<and> (r = Pending \<longrightarrow> one_open s')"
proof -
  obtain its e where ev: "event = (its, e)" by (cases event)
  obtain r0 s0 where f: "for_await (its, e) handleItem s = (r0, s0)"
    by (cases "for_await (its, e) handleItem s")
  from f have inv: "(r0 = Returned \<longrightarrow> all_closed s0) \<and> (r0 = Pending \<longrightarrow> one_open s0)"
    by (rule for_await_inv [where P = all_closed and Q = one_open, rotated 2])
       (auto intro: assms(2) all_closed_one_open dest: handleItem_streams)
  from assms(1) ev f inv show ?thesis
    by (cases r0) (auto simp: handleResponse_def)
qed

lemma handleInputAudio_streams:
  assumes "handleInputAudio event s = (r, s')" and "all_closed s"
  shows "(r = Returned \<longrightarrow> all_closed s') \<and> (r = Pending \<longrightarrow> one_open s')"
proof -
  have "text_calls (ws s') = text_calls (ws s) @ [SpeechStarted]
        \<or> (\<exists>t. text_calls (ws s') = text_calls (ws s) @ [SpeechStarted, Transcription (input_id event) t])"
    using assms(1)
    by (cases "waitForCompletion event")
       (auto simp: handleInputAudio_def send_def debug_def log_error_def Let_def text_calls_append)
  with assms(2) have "all_closed s'"
    by (auto simp: all_closed_def left_open_def open_after_append)
  then show ?thesis by (simp add: all_closed_one_open)
qed

lemma handleEvent_streams:
  assumes "handleEvent ev s = (r, s')" and "all_closed s"
  shows "(r = Returned \<longrightarrow> all_closed s') \<and> (r = Pending \<longrightarrow> one_open s')"
proof (cases ev)
  case (Response x)
  with assms show ?thesis by (simp add: handleEvent_def handleResponse_streams)
next
  case (InputAudio x)
  with assms show ?thesis by (simp add: handleEvent_def handleInputAudio_streams)
next
  case OtherEvent
  with assms show ?thesis by (auto simp: handleEvent_def all_closed_one_open)
qed

lemma startEventLoop_streams:
  assumes "startEventLoop events s = (r, s')" and "all_closed s"
  shows "(r = Returned \<longrightarrow> all_closed s') \<and> (r = Pending \<longrightarrow> one_open s')"
proof -
  obtain evs e where ev: "events = (evs, e)" by (cases events)
  let ?s = "debug ''Starting event loop'' s"
  obtain r0 s0 where f: "for_await (evs, e) handleEvent ?s = (r0, s0)"
    by (cases "for_await (evs, e) handleEvent ?s")
  from assms(2) have "all_closed ?s" by simp
  with f have inv: "(r0 = Returned \<longrightarrow> all_closed s0) \<and> (r0 = Pending \<longrightarrow> one_open s0)"
    by (rule for_await_inv [where P = all_closed and Q = one_open, rotated 2])
       (auto intro: all_closed_one_open dest: handleEvent_streams)
  from assms(1) ev f inv show ?thesis
    by (cases r0) (auto simp: startEventLoop_def)
qed

lemma new_RTSession_cases:
  "(\<exists>e. rt [] Configure = Some e \<and>
        new_RTSession rt events =
          Exited e (created\<lparr>ws := [CloseSocket], client := [Configure],
                      logger := logger created @ [LogDebug ''Configuring realtime session'']\<rparr>))
   \<or> (rt [] Configure = None \<and>
       new_RTSession rt events =
         unawaited_loop (startEventLoop events
           (created\<lparr>ws := [SendText (Connected greeting)], client := [Configure],
              logger := logger created @ [LogDebug ''Configuring realtime session'',
                                          LogDebug ''Realtime session configured successfully'',
                                          LogDebug ''Realtime session configured successfully'']\<rparr>)))"
proof (cases "rt [] Configure")
  case None
  then show ?thesis
    by (cases "startEventLoop events
           (created\<lparr>ws := [SendText (Connected greeting)], client := [Configure],
              logger := logger created @ [LogDebug ''Configuring realtime session'',
                                          LogDebug ''Realtime session configured successfully'',
                                          LogDebug ''Realtime session configured successfully'']\<rparr>)")
       (auto simp: new_RTSession_def initialize_def call_def debug_def send_def created_def
          unawaited_loop_def unhandledRejection_def Let_def split: outcome.splits)
next
  case (Some e)
  then show ?thesis
    by (simp add: new_RTSession_def initialize_def call_def debug_def created_def
          unhandledRejection_def)
qed

lemma for_await_append:
  "for_await (xs @ ys, e) body s =
     (case for_await (xs, Ends) body s of
        (Returned, s') \<Rightarrow> for_await (ys, e) body s'
      | (Threw err, s') \<Rightarrow> (Threw err, s')
      | (Pending, s') \<Rightarrow> (Pending, s'))"
proof (induction xs arbitrary: s)
  case Nil
  show ?case by simp
next
  case (Cons x xs)
  obtain r0 s0 where b: "body x s = (r0, s0)" by (cases "body x s")
  show ?case by (cases r0) (simp_all add: b Cons.IH)
qed

subsection \<open>A failure anywhere in the event loop\<close>

lemma failure_ends_event_loop:
  assumes "for_await (before_events, Ends) handleEvent (debug ''Starting event loop'' s) = (Returned, s1)"
    and "for_await (before_items, Ends) handleItem s1 = (Returned, s2)"
    and "for_await (before_contents, Ends) handleContent s2 = (Returned, s3)"
    and "handleContent c s3 = (Threw err, s4)"
  shows "startEventLoop
           (before_events @
              Response (before_items @ MessageItem (before_contents @ c # contents, ce) # items, ie)
              # events, ee) s
         = (Threw err, log_error err ''Error in event loop''
                         (log_error err ''Error handling response'' s4))"
proof -
  have item: "handleItem (MessageItem (before_contents @ c # contents, ce)) s2 = (Threw err, s4)"
    by (simp add: handleItem_def for_await_append assms(3,4))
  have response:
    "handleEvent (Response (before_items @ MessageItem (before_contents @ c # contents, ce) # items, ie)) s1
       = (Threw err, log_error err ''Error handling response'' s4)"
    by (simp add: handleEvent_def handleResponse_def for_await_append assms(2) item)
  show ?thesis
    by (simp add: startEventLoop_def for_await_append assms(1) response)
qed

lemma deliver_Exited:
  "on_message JSON_parse rt message isBinary (Exited e s) = Exited e s"
  "on_close rt (Exited e s) = Exited e s"
  by (simp_all add: on_message_def on_close_def)

section \<open>The claims\<close>

subsection \<open>C1: an opened stream ends with its \<open>text_done\<close> or with the connection\<close>

text \<open>
  Claim C1. Every content stream the client has seen opened gets exactly one
  \<open>text_done\<close> with its reference, or the connection is closed abruptly; a failure
  while draining never leaves the client with an open stream on a connection that
  stays silent and open.

  In the order of the statement: a text content sends its deltas and then one
  \<open>text_done\<close> exactly when its sequence completes, and its handler ends as the
  sequence does; the text messages of an audio content are the transcript deltas and
  then one \<open>text_done\<close> exactly when the transcript completes. When the handler of
  a content raises, wherever that content stands (after any events, items and
  contents that were handled), the event loop is rejected with that error, nothing
  handles the rejection and the process ends: the last thing the client sees after
  the deltas is the close of its connection. For a whole session: when the event loop
  has completed, no stream is open; while it waits for the upstream, at most the one
  stream being drained is open; when the process has ended, the socket's last event
  is the close, and no handler of the session runs any more.
\<close>

theorem opened_streams_closed_or_connection_closed:
  assumes "textChunks content = (cs, e)" and "transcriptChunks acontent = (ts, et)"
  shows "fst (handleTextContent content s) = settle e \<and>
         sent_by (handleTextContent content) s =
           map (\<lambda>c. SendText (TextDelta (contentId (itemId content) (contentIndex content)) c)) cs
           @ (if e = Ends
              then [SendText (TextDone (contentId (itemId content) (contentIndex content)))]
              else []) \<and>
         text_calls (sent_by (handleAudioContent acontent) s) =
           map (TextDelta (contentId (itemId acontent) (contentIndex acontent))) ts
           @ (if et = Ends
              then [TextDone (contentId (itemId acontent) (contentIndex acontent))]
              else []) \<and>
         (for_await (before_events, Ends) handleEvent (debug ''Starting event loop'' s0) = (Returned, s1) \<and>
          for_await (before_items, Ends) handleItem s1 = (Returned, s2) \<and>
          for_await (before_contents, Ends) handleContent s2 = (Returned, s3) \<and>
          handleContent c s3 = (Threw err, s4) \<longrightarrow>
            unawaited_loop (startEventLoop
                (before_events @
                   Response (before_items @ MessageItem (before_contents @ c # contents, ce) # items, ie)
                   # events', ee) s0)
              = Exited err
                  ((log_error err ''Error in event loop'' (log_error err ''Error handling response'' s4))
                     \<lparr>ws := ws s4 @ [CloseSocket]\<rparr>)) \<and>
         (\<forall>s'. new_RTSession rt events = Running Completed s' \<longrightarrow> left_open (ws s') = {}) \<and>
         (\<forall>s'. new_RTSession rt events = Running Waiting s' \<longrightarrow> (\<exists>i. left_open (ws s') \<subseteq> {i})) \<and>
         (\<forall>s'. new_RTSession rt events \<noteq> Running NotStarted s') \<and>
         (\<forall>x s'. new_RTSession rt events = Exited x s' \<longrightarrow> ws s' \<noteq> [] \<and> last (ws s') = CloseSocket) \<and>
         on_message JSON_parse rt' message isBinary (Exited x' s'') = Exited x' s'' \<and>
         on_close rt' (Exited x' s'') = Exited x' s''"
proof -
  let ?s4 = "created\<lparr>ws := [SendText (Connected greeting)], client := [Configure],
              logger := logger created @ [LogDebug ''Configuring realtime session'',
                                          LogDebug ''Realtime session configured successfully'',
                                          LogDebug ''Realtime session configured successfully'']\<rparr>"
  have start: "all_closed ?s4"
    by (simp add: all_closed_def left_open_def)
  obtain r sl where loop: "startEventLoop events ?s4 = (r, sl)"
    by (cases "startEventLoop events ?s4")
  from startEventLoop_streams [OF loop start]
  have inv: "(r = Returned \<longrightarrow> all_closed sl) \<and> (r = Pending \<longrightarrow> one_open sl)" .
  from new_RTSession_cases [of rt events]
  have session:
    "(\<forall>s'. new_RTSession rt events = Running Completed s' \<longrightarrow> left_open (ws s') = {}) \<and>
     (\<forall>s'. new_RTSession rt events = Running Waiting s' \<longrightarrow> (\<exists>i. left_open (ws s') \<subseteq> {i})) \<and>
     (\<forall>s'. new_RTSession rt events \<noteq> Running NotStarted s') \<and>
     (\<forall>x s'. new_RTSession rt events = Exited x s' \<longrightarrow> ws s' \<noteq> [] \<and> last (ws s') = CloseSocket)"
  proof (elim disjE exE conjE)
    fix x assume "new_RTSession rt events =
          Exited x (created\<lparr>ws := [CloseSocket], client := [Configure],
                      logger := logger created @ [LogDebug ''Configuring realtime session'']\<rparr>)"
    then show ?thesis by simp
  next
    assume "new_RTSession rt events = unawaited_loop (startEventLoop events ?s4)"
    with loop inv show ?thesis
      by (cases r)
         (auto simp: unawaited_loop_def unhandledRejection_def all_closed_def one_open_def)
  qed
  have textual: "fst (handleTextContent content s) = settle e \<and>
         sent_by (handleTextContent content) s =
           map (\<lambda>c. SendText (TextDelta (contentId (itemId content) (contentIndex content)) c)) cs
           @ (if e = Ends
              then [SendText (TextDone (contentId (itemId content) (contentIndex content)))]
              else [])"
    using handleTextContent_run(1,2) [OF assms(1), of s] by (simp add: sent_by_def)
  obtain as ea where a: "audioChunks acontent = (as, ea)"
    by (cases "audioChunks acontent")
  have audio: "text_calls (sent_by (handleAudioContent acontent) s) =
           map (TextDelta (contentId (itemId acontent) (contentIndex acontent))) ts
           @ (if et = Ends
              then [TextDone (contentId (itemId acontent) (contentIndex acontent))]
              else [])"
    using handleAudioContent_run(2) [OF a assms(2), of s]
    by (simp add: sent_by_def text_calls_interleave text_calls_binaries text_calls_append
          text_calls_texts)
  have failure: "for_await (before_events, Ends) handleEvent (debug ''Starting event loop'' s0) = (Returned, s1) \<and>
          for_await (before_items, Ends) handleItem s1 = (Returned, s2) \<and>
          for_await (before_contents, Ends) handleContent s2 = (Returned, s3) \<and>
          handleContent c s3 = (Threw err, s4) \<longrightarrow>
            unawaited_loop (startEventLoop
                (before_events @
                   Response (before_items @ MessageItem (before_contents @ c # contents, ce) # items, ie)
                   # events', ee) s0)
              = Exited err
                  ((log_error err ''Error in event loop'' (log_error err ''Error handling response'' s4))
                     \<lparr>ws := ws s4 @ [CloseSocket]\<rparr>)"
    by (auto simp: failure_ends_event_loop unawaited_loop_def unhandledRejection_def log_error_def)
  have final: "on_message JSON_parse rt' message isBinary (Exited x' s'') = Exited x' s'' \<and>
         on_close rt' (Exited x' s'') = Exited x' s''"
    by (simp add: deliver_Exited)
  from textual audio failure session final show ?thesis
    by blast
qed

text \<open>
  Claim C1 at three runs: a text stream that raises after \<open>"hi"\<close>, a text stream
  that completes on an upstream that then ends, and a stream that raises after an
  earlier stream of the same item has completed.
\<close>

theorem opened_streams_closed_or_connection_closed_witness:
  "new_RTSession upstream_ok lost_text_stream =
     Exited (RTError ''stream lost'')
       \<lparr>ws = [SendText (Connected greeting), SendText (TextDelta ''A1-0'' ''hi''), CloseSocket],
        client = [Configure],
        logger = [LogDebug ''Initializing RT client'',
                  LogDebug ''Client configured successfully'',
                  LogInfo ''New session created'',
                  LogDebug ''Configuring realtime session'',
                  LogDebug ''Realtime session configured successfully'',
                  LogDebug ''Realtime session configured successfully'',
                  LogDebug ''Starting event loop'',
                  LogError (RTError ''stream lost'') ''Error handling text content'',
                  LogError (RTError ''stream lost'') ''Error handling response'',
                  LogError (RTError ''stream lost'') ''Error in event loop'']\<rparr> \<and>
   last [SendText (Connected greeting), SendText (TextDelta ''A1-0'' ''hi''), CloseSocket] = CloseSocket \<and>
   new_RTSession upstream_ok short_text_stream =
     Running Completed
       \<lparr>ws = [SendText (Connected greeting), SendText (TextDelta ''A1-0'' ''hi''),
              SendText (TextDone ''A1-0'')],
        client = [Configure],
        logger = [LogDebug ''Initializing RT client'',
                  LogDebug ''Client configured successfully'',
                  LogInfo ''New session created'',
                  LogDebug ''Configuring realtime session'',
                  LogDebug ''Realtime session configured successfully'',
                  LogDebug ''Realtime session configured successfully'',
                  LogDebug ''Starting event loop'',
                  LogDebug ''Text content processed successfully'',
                  LogDebug ''Response handled successfully'']\<rparr> \<and>
   left_open [SendText (Connected greeting), SendText (TextDelta ''A1-0'' ''hi''),
              SendText (TextDone ''A1-0'')] = {} \<and>
   sent_by (handleTextContent \<lparr>itemId = ''A1'', contentIndex = 0, textChunks = ([''hi''], Ends)\<rparr>) created
     = [SendText (TextDelta ''A1-0'' ''hi''), SendText (TextDone ''A1-0'')] \<and>
   ws (session_of (unawaited_loop (startEventLoop
        ([Response ([MessageItem ([Text first_text, Text second_text], Ends)], Ends)], Stalls)
        created)))
     = [SendText (TextDelta ''A1-0'' ''hi''), SendText (TextDone ''A1-0''),
        SendText (TextDelta ''A1-1'' ''yo''), CloseSocket]"
proof -
  let ?lost = "\<lparr>ws = [SendText (Connected greeting), SendText (TextDelta ''A1-0'' ''hi''), CloseSocket],
        client = [Configure],
        logger = [LogDebug ''Initializing RT client'',
                  LogDebug ''Client configured successfully'',
                  LogInfo ''New session created'',
                  LogDebug ''Configuring realtime session'',
                  LogDebug ''Realtime session configured successfully'',
                  LogDebug ''Realtime session configured successfully'',
                  LogDebug ''Starting event loop'',
                  LogError (RTError ''stream lost'') ''Error handling text content'',
                  LogError (RTError ''stream lost'') ''Error handling response'',
                  LogError (RTError ''stream lost'') ''Error in event loop'']\<rparr>"
  let ?short = "\<lparr>ws = [SendText (Connected greeting), SendText (TextDelta ''A1-0'' ''hi''),
              SendText (TextDone ''A1-0'')],
        client = [Configure],
        logger = [LogDebug ''Initializing RT client'',
                  LogDebug ''Client configured successfully'',
                  LogInfo ''New session created'',
                  LogDebug ''Configuring realtime session'',
                  LogDebug ''Realtime session configured successfully'',
                  LogDebug ''Realtime session configured successfully'',
                  LogDebug ''Starting event loop'',
                  LogDebug ''Text content processed successfully'',
                  LogDebug ''Response handled successfully'']\<rparr>"
  have lost: "new_RTSession upstream_ok lost_text_stream = Exited (RTError ''stream lost'') ?lost"
    by (simp add: new_RTSession_def initialize_def unawaited_loop_def unhandledRejection_def
          created_def call_def debug_def send_def log_error_def startEventLoop_def
          handleEvent_def handleResponse_def handleItem_def handleContent_def
          handleTextContent_def contentId_def string_of_nat.simps digit_def Let_def upstream_ok_def lost_text_stream_def)
  have short: "new_RTSession upstream_ok short_text_stream = Running Completed ?short"
    by (simp add: new_RTSession_def initialize_def unawaited_loop_def unhandledRejection_def
          created_def call_def debug_def send_def log_error_def startEventLoop_def
          handleEvent_def handleResponse_def handleItem_def handleContent_def
          handleTextContent_def contentId_def string_of_nat.simps digit_def Let_def upstream_ok_def short_text_stream_def)
  note claim = opened_streams_closed_or_connection_closed
          [where content = "\<lparr>itemId = ''A1'', contentIndex = 0, textChunks = ([''hi''], Ends)\<rparr>"
             and cs = "[''hi'']" and e = Ends and s = created
             and acontent = "\<lparr>itemId = ''A1'', contentIndex = 1,
                   audioChunks = ([], Ends), transcriptChunks = ([], Ends),
                   arrival = [], audioSettlesFirst = True\<rparr>"
             and ts = "[]" and et = Ends and rt = upstream_ok]
  have closed: "last (ws ?lost) = CloseSocket"
    using claim [where events = lost_text_stream] lost by simp
  have none_open: "left_open (ws ?short) = {}"
    using claim [where events = short_text_stream] short by simp
  have sent: "sent_by (handleTextContent \<lparr>itemId = ''A1'', contentIndex = 0, textChunks = ([''hi''], Ends)\<rparr>) created
     = [SendText (TextDelta ''A1-0'' ''hi''), SendText (TextDone ''A1-0'')]"
    using claim [where events = short_text_stream]
    by (simp add: contentId_def string_of_nat.simps digit_def)
  let ?s1 = "debug ''Starting event loop'' created"
  let ?s3 = "debug ''Text content processed successfully''
               (send (TextDone ''A1-0'') (send (TextDelta ''A1-0'' ''hi'') ?s1))"
  let ?s4 = "log_error (RTError ''stream lost'') ''Error handling text content''
               (send (TextDelta ''A1-1'' ''yo'') ?s3)"
  have one: "handleContent (Text first_text) ?s1 = (Returned, ?s3)"
    by (simp add: handleContent_def handleTextContent_def first_text_def contentId_def
          string_of_nat.simps digit_def Let_def)
  have two: "handleContent (Text second_text) ?s3 = (Threw (RTError ''stream lost''), ?s4)"
    by (simp add: handleContent_def handleTextContent_def second_text_def contentId_def
          string_of_nat.simps digit_def Let_def)
  have sent_before: "ws ?s4 = [SendText (TextDelta ''A1-0'' ''hi''), SendText (TextDone ''A1-0''),
        SendText (TextDelta ''A1-1'' ''yo'')]"
    by (simp add: send_def debug_def log_error_def created_def)
  have h1: "textChunks first_text = ([''hi''], Ends)"
    by (simp add: first_text_def)
  have h2: "transcriptChunks \<lparr>itemId = ''A1'', contentIndex = 1,
                   audioChunks = ([], Ends), transcriptChunks = ([], Ends),
                   arrival = [], audioSettlesFirst = True\<rparr> = ([], Ends)"
    by simp
  have before: "for_await ([], Ends) handleEvent ?s1 = (Returned, ?s1) \<and>
                for_await ([], Ends) handleItem ?s1 = (Returned, ?s1) \<and>
                for_await ([Text first_text], Ends) handleContent ?s1 = (Returned, ?s3) \<and>
                handleContent (Text second_text) ?s3 = (Threw (RTError ''stream lost''), ?s4)"
    by (simp add: one two)
  note position = opened_streams_closed_or_connection_closed
         [OF h1 h2, where before_events = "[]" and before_items = "[]"
            and before_contents = "[Text first_text]" and c = "Text second_text"
            and ?s0.0 = created and ?s1.0 = ?s1 and ?s2.0 = ?s1 and ?s3.0 = ?s3 and ?s4.0 = ?s4
            and err = "RTError ''stream lost''"
            and contents = "[]" and ce = Ends and items = "[]" and ie = Ends
            and events' = "[]" and ee = Stalls]
  from position [THEN conjunct2, THEN conjunct2, THEN conjunct2, THEN conjunct1, THEN mp, OF before]
  have "unawaited_loop (startEventLoop
        ([Response ([MessageItem ([Text first_text, Text second_text], Ends)], Ends)], Stalls)
        created)
     = Exited (RTError ''stream lost'')
         ((log_error (RTError ''stream lost'') ''Error in event loop''
            (log_error (RTError ''stream lost'') ''Error handling response'' ?s4))
            \<lparr>ws := ws ?s4 @ [CloseSocket]\<rparr>)"
    by simp
  then have anywhere: "ws (session_of (unawaited_loop (startEventLoop
          ([Response ([MessageItem ([Text first_text, Text second_text], Ends)], Ends)], Stalls)
          created)))
       = [SendText (TextDelta ''A1-0'' ''hi''), SendText (TextDone ''A1-0''),
          SendText (TextDelta ''A1-1'' ''yo''), CloseSocket]"
    by (simp add: session_of_def sent_before)
  from lost short closed none_open sent anywhere show ?thesis
    by simp
qed

subsection \<open>C2: text chunks are relayed in order, then one \<open>text_done\<close>\<close>

text \<open>
  Claim C2. For every finite sequence of text chunks \<open>cs\<close> that the upstream delivers
  for one text content, \<open>handleTextContent\<close> returns normally and sends, after what
  was sent before, one \<open>text_delta\<close> per chunk with the chunk as its \<open>delta\<close>, in
  the same order and each with the content's reference, followed by exactly one
  \<open>text_done\<close> with the same reference.
\<close>

theorem text_chunks_forwarded_in_order:
  assumes "textChunks content = (cs, Ends)"
  shows "fst (handleTextContent content s) = Returned \<and>
         ws (snd (handleTextContent content s)) =
           ws s @ map (\<lambda>c. SendText (TextDelta (contentId (itemId content) (contentIndex content)) c)) cs
                @ [SendText (TextDone (contentId (itemId content) (contentIndex content)))]"
  using handleTextContent_run(1,2) [OF assms, of s] by simp

text \<open>Claim C2 at the scenario of the specification: the chunks \<open>"hi"\<close>, \<open>" there"\<close>.\<close>

theorem text_chunks_forwarded_in_order_witness:
  "textChunks \<lparr>itemId = ''A1'', contentIndex = 0, textChunks = ([''hi'', '' there''], Ends)\<rparr>
     = ([''hi'', '' there''], Ends) \<and>
   ws (snd (handleTextContent
              \<lparr>itemId = ''A1'', contentIndex = 0, textChunks = ([''hi'', '' there''], Ends)\<rparr> created))
     = [SendText (TextDelta ''A1-0'' ''hi''), SendText (TextDelta ''A1-0'' '' there''),
        SendText (TextDone ''A1-0'')]"
  using text_chunks_forwarded_in_order
          [of "\<lparr>itemId = ''A1'', contentIndex = 0, textChunks = ([''hi'', '' there''], Ends)\<rparr>"
              "[''hi'', '' there'']" created]
  by (simp add: created_def contentId_def string_of_nat.simps digit_def)

subsection \<open>C3: a frame that is not JSON is dropped and the session goes on\<close>

text \<open>
  Claim C3. For every client text frame that \<open>JSON.parse\<close> rejects, \<open>handleMessage\<close>
  returns normally and changes nothing in the session but the log, which gets the
  error. A user message frame handled next, with an upstream that accepts the two
  calls, is forwarded: the upstream receives \<open>sendItem\<close> with the message's text and
  then \<open>generateResponse\<close>.
\<close>

theorem malformed_json_dropped_session_continues:
  assumes "JSON_parse (toString_utf8 bad) = None"
    and "JSON_parse (toString_utf8 good) = Some parsed"
    and "property parsed ''type'' = Some (JString ''user_message'')"
    and "rt (client s) (SendItem (property parsed ''text'')) = None"
    and "rt (client s @ [SendItem (property parsed ''text'')]) GenerateResponse = None"
  shows "handleMessage JSON_parse rt bad False s
           = (Returned, s\<lparr>logger := logger s @ [LogError SyntaxError ''Error handling message'']\<rparr>) \<and>
         fst (handleMessage JSON_parse rt good False
                (snd (handleMessage JSON_parse rt bad False s))) = Returned \<and>
         client (snd (handleMessage JSON_parse rt good False
                        (snd (handleMessage JSON_parse rt bad False s))))
           = client s @ [SendItem (property parsed ''text''), GenerateResponse]"
proof -
  let ?s1 = "s\<lparr>logger := logger s @ [LogError SyntaxError ''Error handling message'']\<rparr>"
  have bad: "handleMessage JSON_parse rt bad False s = (Returned, ?s1)"
    using assms(1) by (simp add: handleMessage_def handleTextMessage_def log_error_def)
  have nn: "parsed \<noteq> JNull"
    using assms(3) by (rule property_not_null)
  have good: "handleMessage JSON_parse rt good False ?s1 =
      (Returned, debug ''User message processed successfully''
         ((debug ''Received text message'' ?s1)
            \<lparr>client := client s @ [SendItem (property parsed ''text''), GenerateResponse]\<rparr>))"
    using assms(2-5) nn
    by (simp add: handleMessage_def handleTextMessage_def call_def debug_def)
  show ?thesis
    by (simp add: bad good debug_def)
qed

text \<open>Claim C3 at the frame \<open>{not json\<close> followed by the scenario's user message.\<close>

theorem malformed_json_dropped_session_continues_witness:
  "handleMessage sample_JSON_parse upstream_ok garbage_frame False created
     = (Returned, created\<lparr>logger := logger created @ [LogError SyntaxError ''Error handling message'']\<rparr>) \<and>
   client (snd (handleMessage sample_JSON_parse upstream_ok hello_frame False
                  (snd (handleMessage sample_JSON_parse upstream_ok garbage_frame False created))))
     = [SendItem (Some (JString ''hello'')), GenerateResponse]"
proof -
  have "handleMessage sample_JSON_parse upstream_ok garbage_frame False created
          = (Returned, created\<lparr>logger := logger created @ [LogError SyntaxError ''Error handling message'']\<rparr>) \<and>
        fst (handleMessage sample_JSON_parse upstream_ok hello_frame False
               (snd (handleMessage sample_JSON_parse upstream_ok garbage_frame False created))) = Returned \<and>
        client (snd (handleMessage sample_JSON_parse upstream_ok hello_frame False
               (snd (handleMessage sample_JSON_parse upstream_ok garbage_frame False created))))
          = client created @
            [SendItem (property (JObject [(''type'', JString ''user_message''), (''id'', JString ''m1''),
                                          (''text'', JString ''hello'')]) ''text''),
             GenerateResponse]"
    by (rule malformed_json_dropped_session_continues)
       (simp_all add: sample_parse_garbage sample_parse_hello upstream_ok_def)
  then show ?thesis
    by (elim conjE) (simp add: created_fields)
qed

subsection \<open>C4: which frames fail to decode\<close>

text \<open>
  Claim C4 says that decoding fails exactly when the frame is not valid JSON or the
  parsed object has no \<open>type\<close> field. On the code it fails: the frame \<open>{}\<close> is
  valid JSON without a \<open>type\<close> field, and \<open>handleTextMessage\<close> returns normally on
  it, having written one debug entry.
\<close>

theorem missing_type_is_not_an_error:
  "sample_JSON_parse (toString_utf8 empty_object_frame) = Some (JObject []) \<and>
   property (JObject []) ''type'' = None \<and>
   handleTextMessage sample_JSON_parse upstream_ok empty_object_frame created
     = (Returned, debug ''Received text message'' created)"
  by (simp add: sample_parse_empty_object handleTextMessage_def)

text \<open>
  Claim C4, amended. A frame that is not valid JSON fails with the parser's error and
  leaves the session untouched. A frame that parses to a value other than \<open>null\<close>
  whose \<open>type\<close> is missing or is not \<open>user_message\<close> is not an error: it is
  ignored, and the session only gets a debug entry.
\<close>

theorem decoding_fails_on_invalid_json_only:
  "(JSON_parse (toString_utf8 message) = None \<longrightarrow>
      handleTextMessage JSON_parse rt message s = (Threw SyntaxError, s)) \<and>
   (\<forall>parsed. JSON_parse (toString_utf8 message) = Some parsed \<and> parsed \<noteq> JNull \<and>
        property parsed ''type'' \<noteq> Some (JString ''user_message'') \<longrightarrow>
      handleTextMessage JSON_parse rt message s = (Returned, debug ''Received text message'' s))"
  by (simp add: handleTextMessage_def)

text \<open>Claim C4, amended, at the frames \<open>{not json\<close> and \<open>{}\<close>.\<close>

theorem decoding_fails_on_invalid_json_only_witness:
  "handleTextMessage sample_JSON_parse upstream_ok garbage_frame created = (Threw SyntaxError, created) \<and>
   handleTextMessage sample_JSON_parse upstream_ok empty_object_frame created
     = (Returned, debug ''Received text message'' created)"
  using decoding_fails_on_invalid_json_only
          [where JSON_parse = sample_JSON_parse and message = garbage_frame
             and rt = upstream_ok and s = created]
        decoding_fails_on_invalid_json_only
          [where JSON_parse = sample_JSON_parse and message = empty_object_frame
             and rt = upstream_ok and s = created]
  by (simp add: sample_parse_garbage sample_parse_empty_object)

subsection \<open>C5: a failed upstream send is logged, and the session goes on\<close>

text \<open>
  Claim C5 says that a failure of \<open>sendAudio\<close>, \<open>sendItem\<close> or \<open>generateResponse\<close>
  ends the session. On the code it fails: with an upstream that rejects audio, the
  binary frame is handled by two log entries and nothing else. The upstream is not
  closed, the socket is not closed, and the user message that comes next is forwarded.
\<close>

theorem send_failure_does_not_close_session:
  "handleMessage sample_JSON_parse upstream_audio_down [1, 2] True created
     = (Returned, created\<lparr>client := [SendAudio [1, 2]],
                          logger := logger created @
                            [LogError (RTError ''send failed'') ''Failed to send audio data'',
                             LogError (RTError ''send failed'') ''Error handling message'']\<rparr>) \<and>
   client (snd (handleMessage sample_JSON_parse upstream_audio_down hello_frame False
                  (snd (handleMessage sample_JSON_parse upstream_audio_down [1, 2] True created))))
     = [SendAudio [1, 2], SendItem (Some (JString ''hello'')), GenerateResponse] \<and>
   ws (snd (handleMessage sample_JSON_parse upstream_audio_down hello_frame False
                  (snd (handleMessage sample_JSON_parse upstream_audio_down [1, 2] True created))))
     = []"
  by (simp add: handleMessage_def handleBinaryMessage_def handleTextMessage_def call_def
        upstream_audio_down_def created_def log_error_def debug_def sample_parse_hello)

text \<open>
  Claim C5, amended. \<open>handleMessage\<close> always returns normally, sends nothing to the
  client and never closes the upstream. When \<open>sendAudio\<close>, \<open>sendItem\<close> or
  \<open>generateResponse\<close> is rejected, the error is logged by the handler that made the
  call and again by \<open>handleMessage\<close>, and the session is otherwise as before, ready
  for the next message.
\<close>

theorem upstream_send_failure_logged_and_swallowed:
  "fst (handleMessage JSON_parse rt message isBinary s) = Returned \<and>
   ws (snd (handleMessage JSON_parse rt message isBinary s)) = ws s \<and>
   (Close \<in> set (client (snd (handleMessage JSON_parse rt message isBinary s))))
     = (Close \<in> set (client s)) \<and>
   (\<forall>e. rt (client s) (SendAudio message) = Some e \<longrightarrow>
      handleMessage JSON_parse rt message True s =
        (Returned, s\<lparr>client := client s @ [SendAudio message],
                      logger := logger s @ [LogError e ''Failed to send audio data'',
                                            LogError e ''Error handling message'']\<rparr>)) \<and>
   (\<forall>parsed e. JSON_parse (toString_utf8 message) = Some parsed \<and>
        property parsed ''type'' = Some (JString ''user_message'') \<and>
        rt (client s) (SendItem (property parsed ''text'')) = Some e \<longrightarrow>
      handleMessage JSON_parse rt message False s =
        (Returned, s\<lparr>client := client s @ [SendItem (property parsed ''text'')],
                      logger := logger s @ [LogDebug ''Received text message'',
                                            LogError e ''Failed to process user message'',
                                            LogError e ''Error handling message'']\<rparr>)) \<and>
   (\<forall>parsed e. JSON_parse (toString_utf8 message) = Some parsed \<and>
        property parsed ''type'' = Some (JString ''user_message'') \<and>
        rt (client s) (SendItem (property parsed ''text'')) = None \<and>
        rt (client s @ [SendItem (property parsed ''text'')]) GenerateResponse = Some e \<longrightarrow>
      handleMessage JSON_parse rt message False s =
        (Returned, s\<lparr>client := client s @ [SendItem (property parsed ''text''), GenerateResponse],
                      logger := logger s @ [LogDebug ''Received text message'',
                                            LogError e ''Failed to process user message'',
                                            LogError e ''Error handling message'']\<rparr>))"
proof (intro conjI allI impI)
  show "fst (handleMessage JSON_parse rt message isBinary s) = Returned"
    by (rule handleMessage_returns)
  show "ws (snd (handleMessage JSON_parse rt message isBinary s)) = ws s"
    by (rule handleMessage_ws)
  show "(Close \<in> set (client (snd (handleMessage JSON_parse rt message isBinary s))))
          = (Close \<in> set (client s))"
    by (rule handleMessage_no_close)
next
  fix e assume "rt (client s) (SendAudio message) = Some e"
  then show "handleMessage JSON_parse rt message True s =
        (Returned, s\<lparr>client := client s @ [SendAudio message],
                      logger := logger s @ [LogError e ''Failed to send audio data'',
                                            LogError e ''Error handling message'']\<rparr>)"
    by (simp add: handleMessage_def handleBinaryMessage_def call_def log_error_def)
next
  fix parsed e
  assume a: "JSON_parse (toString_utf8 message) = Some parsed \<and>
        property parsed ''type'' = Some (JString ''user_message'') \<and>
        rt (client s) (SendItem (property parsed ''text'')) = Some e"
  then have "parsed \<noteq> JNull" by (auto dest: property_not_null)
  with a show "handleMessage JSON_parse rt message False s =
        (Returned, s\<lparr>client := client s @ [SendItem (property parsed ''text'')],
                      logger := logger s @ [LogDebug ''Received text message'',
                                            LogError e ''Failed to process user message'',
                                            LogError e ''Error handling message'']\<rparr>)"
    by (simp add: handleMessage_def handleTextMessage_def call_def log_error_def debug_def)
next
  fix parsed e
  assume a: "JSON_parse (toString_utf8 message) = Some parsed \<and>
        property parsed ''type'' = Some (JString ''user_message'') \<and>
        rt (client s) (SendItem (property parsed ''text'')) = None \<and>
        rt (client s @ [SendItem (property parsed ''text'')]) GenerateResponse = Some e"
  then have "parsed \<noteq> JNull" by (auto dest: property_not_null)
  with a show "handleMessage JSON_parse rt message False s =
        (Returned, s\<lparr>client := client s @ [SendItem (property parsed ''text''), GenerateResponse],
                      logger := logger s @ [LogDebug ''Received text message'',
                                            LogError e ''Failed to process user message'',
                                            LogError e ''Error handling message'']\<rparr>)"
    by (simp add: handleMessage_def handleTextMessage_def call_def log_error_def debug_def)
qed

text \<open>Claim C5, amended, at a binary frame sent to an upstream that rejects audio.\<close>

theorem upstream_send_failure_logged_and_swallowed_witness:
  "upstream_audio_down (client created) (SendAudio [1, 2]) = Some (RTError ''send failed'') \<and>
   handleMessage sample_JSON_parse upstream_audio_down [1, 2] True created =
     (Returned, created\<lparr>client := client created @ [SendAudio [1, 2]],
                logger := logger created @
                  [LogError (RTError ''send failed'') ''Failed to send audio data'',
                   LogError (RTError ''send failed'') ''Error handling message'']\<rparr>)"
  using upstream_send_failure_logged_and_swallowed
          [where JSON_parse = sample_JSON_parse and rt = upstream_audio_down
             and message = "[1, 2]" and isBinary = True and s = created]
  by (simp add: upstream_audio_down_def)

subsection \<open>C6: a failed configuration ends the process; the upstream is never closed\<close>




subsection \<open>C7: audio chunks byte for byte, transcript deltas, one \<open>text_done\<close>\<close>

text \<open>
  Claim C7. For an audio content whose two sequences complete, with chunks as the
  upstream library yields them (each spanning its buffer), and for every order of
  arrival: the handler returns normally; the binary frames sent are the chunks'
  bytes, one frame per chunk in the original order; the text messages sent are the
  transcript deltas in order, then exactly one \<open>text_done\<close>; and the closure that
  forwards the audio sends no text message, so the \<open>text_done\<close> is the
  transcript closure's.
\<close>

theorem audio_chunks_forwarded_byte_for_byte:
  assumes "audioChunks content = (as, Ends)" and "transcriptChunks content = (ts, Ends)"
    and "\<forall>chunk \<in> set as. spans_buffer chunk"
  shows "fst (handleAudioContent content s) = Returned \<and>
         binary_calls (sent_by (handleAudioContent content) s) = map bytes as \<and>
         text_calls (sent_by (handleAudioContent content) s) =
           map (TextDelta (contentId (itemId content) (contentIndex content))) ts
           @ [TextDone (contentId (itemId content) (contentIndex content))] \<and>
         text_calls (sent_by (handleAudioChunks content) s) = []"
proof -
  have "map buffer as = map bytes as"
    using assms(3) by (simp add: spans_buffer_def whole_buffer_bytes)
  moreover have "text_calls (sent_by (handleAudioChunks content) s) = []"
    by (simp add: sent_by_def handleAudioChunks_run [OF assms(1)] text_calls_binaries)
  ultimately show ?thesis
    using audio_content_forwarding [OF assms(1,2), of s] by simp
qed

text \<open>Claim C7 at two audio chunks and two transcript chunks that arrive interleaved.\<close>

theorem audio_chunks_forwarded_byte_for_byte_witness:
  "spans_buffer \<lparr>buffer = [1, 2], byteOffset = 0, byteLength = 2\<rparr> \<and>
   spans_buffer \<lparr>buffer = [3, 4, 5], byteOffset = 0, byteLength = 3\<rparr> \<and>
   binary_calls (sent_by (handleAudioContent
       \<lparr>itemId = ''A1'', contentIndex = 1,
        audioChunks = ([\<lparr>buffer = [1, 2], byteOffset = 0, byteLength = 2\<rparr>,
                        \<lparr>buffer = [3, 4, 5], byteOffset = 0, byteLength = 3\<rparr>], Ends),
        transcriptChunks = ([''he'', ''llo''], Ends),
        arrival = [False, True, True, False], audioSettlesFirst = True\<rparr>) created)
     = [[1, 2], [3, 4, 5]] \<and>
   text_calls (sent_by (handleAudioContent
       \<lparr>itemId = ''A1'', contentIndex = 1,
        audioChunks = ([\<lparr>buffer = [1, 2], byteOffset = 0, byteLength = 2\<rparr>,
                        \<lparr>buffer = [3, 4, 5], byteOffset = 0, byteLength = 3\<rparr>], Ends),
        transcriptChunks = ([''he'', ''llo''], Ends),
        arrival = [False, True, True, False], audioSettlesFirst = True\<rparr>) created)
     = [TextDelta ''A1-1'' ''he'', TextDelta ''A1-1'' ''llo'', TextDone ''A1-1'']"
  using audio_chunks_forwarded_byte_for_byte
          [where content = "\<lparr>itemId = ''A1'', contentIndex = 1,
                audioChunks = ([\<lparr>buffer = [1, 2], byteOffset = 0, byteLength = 2\<rparr>,
                                \<lparr>buffer = [3, 4, 5], byteOffset = 0, byteLength = 3\<rparr>], Ends),
                transcriptChunks = ([''he'', ''llo''], Ends),
                arrival = [False, True, True, False], audioSettlesFirst = True\<rparr>"
             and as = "[\<lparr>buffer = [1, 2], byteOffset = 0, byteLength = 2\<rparr>,
                        \<lparr>buffer = [3, 4, 5], byteOffset = 0, byteLength = 3\<rparr>]"
             and ts = "[''he'', ''llo'']" and s = created]
  by (simp add: spans_buffer_def bytes_def contentId_def string_of_nat.simps digit_def)

subsection \<open>C8: input audio gives \<open>speech_started\<close>, then one transcription\<close>

text \<open>
  Claim C8. For every \<open>input_audio\<close> event the session first sends \<open>speech_started\<close>,
  which has no id. It then waits for \<open>waitForCompletion\<close>: only when that is fulfilled
  does it send one more message, a \<open>transcription\<close> with the item's id and its
  recognised text, the empty string when there is none. While the wait is pending, or
  when it is rejected, nothing follows \<open>speech_started\<close>.
\<close>

theorem input_audio_speech_started_then_transcription:
  "fst (handleInputAudio event s) = waitForCompletion event \<and>
   sent_by (handleInputAudio event) s =
     SendText SpeechStarted #
     (case waitForCompletion event of
        Returned \<Rightarrow>
          [SendText (Transcription (input_id event)
                       (case transcription event of None \<Rightarrow> [] | Some t \<Rightarrow> t))]
      | Threw e \<Rightarrow> []
      | Pending \<Rightarrow> [])"
  by (cases "waitForCompletion event"; cases "transcription event")
     (simp_all add: handleInputAudio_def sent_by_def send_def debug_def log_error_def
        or_empty_def Let_def)

text \<open>Claim C8 at an item without transcription, completed and still pending.\<close>

theorem input_audio_speech_started_then_transcription_witness:
  "sent_by (handleInputAudio \<lparr>input_id = ''item7'', waitForCompletion = Returned,
                              transcription = None\<rparr>) created
     = [SendText SpeechStarted, SendText (Transcription ''item7'' [])] \<and>
   sent_by (handleInputAudio \<lparr>input_id = ''item7'', waitForCompletion = Pending,
                              transcription = Some ''hello''\<rparr>) created
     = [SendText SpeechStarted]"
  using input_audio_speech_started_then_transcription
          [of "\<lparr>input_id = ''item7'', waitForCompletion = Returned, transcription = None\<rparr>" created]
        input_audio_speech_started_then_transcription
          [of "\<lparr>input_id = ''item7'', waitForCompletion = Pending,
                transcription = Some ''hello''\<rparr>" created]
  by simp

subsection \<open>C9: one content reference for all messages of a stream\<close>

text \<open>
  Claim C9. Every text message that \<open>handleTextContent\<close> sends for a content with item
  id \<open>I\<close> and content index \<open>K\<close>, and every text message that \<open>handleAudioContent\<close>
  sends for such a content, carries the id \<open>I-K\<close>, however the chunk sequences end;
  for item id \<open>A1\<close> and index \<open>2\<close> that id is \<open>A1-2\<close>.
\<close>

theorem content_reference_stable:
  "(\<forall>m \<in> set (text_calls (sent_by (handleTextContent content) s)).
      message_id m = Some (itemId content @ ''-'' @ string_of_nat (contentIndex content))) \<and>
   (\<forall>m \<in> set (text_calls (sent_by (handleAudioContent acontent) s)).
      message_id m = Some (itemId acontent @ ''-'' @ string_of_nat (contentIndex acontent))) \<and>
   contentId ''A1'' 2 = ''A1-2''"
proof (intro conjI)
  obtain cs e where c: "textChunks content = (cs, e)"
    by (cases "textChunks content")
  from handleTextContent_run(2) [OF c, of s]
  show "\<forall>m \<in> set (text_calls (sent_by (handleTextContent content) s)).
          message_id m = Some (itemId content @ ''-'' @ string_of_nat (contentIndex content))"
    by (auto simp: sent_by_def text_calls_append text_calls_texts message_id_def contentId_def)
next
  obtain as ea where a: "audioChunks acontent = (as, ea)"
    by (cases "audioChunks acontent")
  obtain ts et where t: "transcriptChunks acontent = (ts, et)"
    by (cases "transcriptChunks acontent")
  from handleAudioContent_run(2) [OF a t, of s]
  show "\<forall>m \<in> set (text_calls (sent_by (handleAudioContent acontent) s)).
          message_id m = Some (itemId acontent @ ''-'' @ string_of_nat (contentIndex acontent))"
    by (auto simp: sent_by_def text_calls_interleave text_calls_binaries text_calls_append
                   text_calls_texts message_id_def contentId_def)
next
  show "contentId ''A1'' 2 = ''A1-2''"
    by (simp add: contentId_def string_of_nat.simps digit_def)
qed

text \<open>Claim C9 at the first delta of the content \<open>A1\<close>, index \<open>2\<close>.\<close>

theorem content_reference_stable_witness:
  "TextDelta ''A1-2'' ''hi''
     \<in> set (text_calls (sent_by (handleTextContent
           \<lparr>itemId = ''A1'', contentIndex = 2, textChunks = ([''hi''], Ends)\<rparr>) created)) \<and>
   message_id (TextDelta ''A1-2'' ''hi'') = Some (''A1'' @ ''-'' @ string_of_nat 2)"
proof -
  have "ws (snd (handleTextContent
           \<lparr>itemId = ''A1'', contentIndex = 2, textChunks = ([''hi''], Ends)\<rparr> created))
          = [SendText (TextDelta ''A1-2'' ''hi''), SendText (TextDone ''A1-2'')]"
    by (simp add: handleTextContent_def send_def debug_def created_def contentId_def
          string_of_nat.simps digit_def Let_def)
  then have m: "TextDelta ''A1-2'' ''hi''
     \<in> set (text_calls (sent_by (handleTextContent
           \<lparr>itemId = ''A1'', contentIndex = 2, textChunks = ([''hi''], Ends)\<rparr>) created))"
    by (simp add: sent_by_def created_def)
  from content_reference_stable
         [of "\<lparr>itemId = ''A1'', contentIndex = 2, textChunks = ([''hi''], Ends)\<rparr>" created]
       m
  show ?thesis by auto
qed

subsection \<open>C10: an empty stream still gets its \<open>text_done\<close>\<close>

text \<open>
  Claim C10. A text content whose chunk sequence completes without a chunk makes the
  session send exactly one message, the \<open>text_done\<close> with the content's reference.
  An audio content whose transcript completes without a chunk gives, among the text
  messages sent, exactly that \<open>text_done\<close>, whatever its audio chunks are and
  however they arrive.
\<close>

theorem empty_stream_closed_by_text_done:
  "(textChunks content = ([], Ends) \<longrightarrow>
      sent_by (handleTextContent content) s =
        [SendText (TextDone (contentId (itemId content) (contentIndex content)))]) \<and>
   (transcriptChunks acontent = ([], Ends) \<longrightarrow>
      text_calls (sent_by (handleAudioContent acontent) s) =
        [TextDone (contentId (itemId acontent) (contentIndex acontent))])"
proof (intro conjI impI)
  assume "textChunks content = ([], Ends)"
  from handleTextContent_run(2) [OF this, of s]
  show "sent_by (handleTextContent content) s =
          [SendText (TextDone (contentId (itemId content) (contentIndex content)))]"
    by (simp add: sent_by_def)
next
  assume t: "transcriptChunks acontent = ([], Ends)"
  obtain as ea where a: "audioChunks acontent = (as, ea)"
    by (cases "audioChunks acontent")
  from handleAudioContent_run(2) [OF a t, of s]
  show "text_calls (sent_by (handleAudioContent acontent) s) =
          [TextDone (contentId (itemId acontent) (contentIndex acontent))]"
    by (simp add: sent_by_def text_calls_interleave text_calls_binaries)
qed

text \<open>Claim C10 at an empty text content and at an audio content with one audio chunk.\<close>

theorem empty_stream_closed_by_text_done_witness:
  "sent_by (handleTextContent \<lparr>itemId = ''A1'', contentIndex = 2, textChunks = ([], Ends)\<rparr>) created
     = [SendText (TextDone ''A1-2'')] \<and>
   text_calls (sent_by (handleAudioContent
       \<lparr>itemId = ''A1'', contentIndex = 3,
        audioChunks = ([\<lparr>buffer = [1, 2], byteOffset = 0, byteLength = 2\<rparr>], Ends),
        transcriptChunks = ([], Ends), arrival = [False, True], audioSettlesFirst = True\<rparr>) created)
     = [TextDone ''A1-3'']"
  using empty_stream_closed_by_text_done
          [of "\<lparr>itemId = ''A1'', contentIndex = 2, textChunks = ([], Ends)\<rparr>"
              created
              "\<lparr>itemId = ''A1'', contentIndex = 3,
                audioChunks = ([\<lparr>buffer = [1, 2], byteOffset = 0, byteLength = 2\<rparr>], Ends),
                transcriptChunks = ([], Ends), arrival = [False, True], audioSettlesFirst = True\<rparr>"]
  by (simp add: contentId_def string_of_nat.simps digit_def)

end
